theory Spec2Isabelle
  imports Complex_Main
begin

section \<open>Strings\<close>

text \<open>
  Python strings are modelled as HOL strings. The character classes and the case
  mapping below are the ASCII part of Python's: \<open>\w\<close> is a letter, a digit or the
  underscore, \<open>\s\<close> and \<open>str.isspace\<close> are the codes 9 to 13, 28 to 31 and 32,
  \<open>str.lower\<close> and \<open>str.upper\<close> map the 26 letters.
\<close>

definition upper_letters :: string where
  "upper_letters = ''ABCDEFGHIJKLMNOPQRSTUVWXYZ''"

definition lower_letters :: string where
  "lower_letters = ''abcdefghijklmnopqrstuvwxyz''"

definition lower_char :: "char \<Rightarrow> char" where
  "lower_char c = (case map_of (zip upper_letters lower_letters) c of Some d \<Rightarrow> d | None \<Rightarrow> c)"

definition upper_char :: "char \<Rightarrow> char" where
  "upper_char c = (case map_of (zip lower_letters upper_letters) c of Some d \<Rightarrow> d | None \<Rightarrow> c)"

definition lower :: "string \<Rightarrow> string" where
  "lower s = map lower_char s"

definition upper :: "string \<Rightarrow> string" where
  "upper s = map upper_char s"

definition is_word :: "char \<Rightarrow> bool" where
  "is_word c = (c \<in> set (upper_letters @ lower_letters @ ''0123456789_''))"

definition is_space :: "char \<Rightarrow> bool" where
  "is_space c = (c \<in> set [CHR 0x09, CHR 0x0A, CHR 0x0B, CHR 0x0C, CHR 0x0D,
                             CHR 0x1C, CHR 0x1D, CHR 0x1E, CHR 0x1F, CHR 0x20])"

text \<open>\<open>sep.join(parts)\<close>\<close>

fun join :: "string \<Rightarrow> string list \<Rightarrow> string" where
  "join sep [] = []"
| "join sep [x] = x"
| "join sep (x # y # ys) = x @ sep @ join sep (y # ys)"

text \<open>\<open>a in b\<close> on strings: \<open>a\<close> occurs in \<open>b\<close> as a contiguous substring.\<close>

fun py_in :: "string \<Rightarrow> string \<Rightarrow> bool" where
  "py_in a [] = (a = [])"
| "py_in a (c # cs) = (take (length a) (c # cs) = a \<or> py_in a cs)"

text \<open>
  \<open>re.split(r'[_\s]+', s)\<close>: the pieces of \<open>s\<close> between maximal runs of underscores
  and whitespace; a run at either end leaves an empty piece there.
\<close>

definition is_sep :: "char \<Rightarrow> bool" where
  "is_sep c = (c = CHR ''_'' \<or> is_space c)"

function re_split :: "string \<Rightarrow> string \<Rightarrow> string list" where
  "re_split cur [] = [rev cur]"
| "re_split cur (c # cs) =
     (if is_sep c then rev cur # re_split [] (dropWhile is_sep cs)
      else re_split (c # cur) cs)"
  by pat_completeness auto
termination
  by (relation "measure (\<lambda>(cur, s). length s)")
     (auto simp: le_imp_less_Suc length_dropWhile_le)

section \<open>The knowledge graph (modules/knowledge\_graph.py)\<close>

text \<open>
  A pandas Series is the list of its cells, \<open>None\<close> for a null cell; a DataFrame is the
  list of its columns in column order, each with its name; the \<open>dataframes\<close> dictionary
  is the list of its items in insertion order. Floats are modelled as rationals: the
  constants 0.9, 0.1 and 0.95 are 9/10, 1/10 and 95/100, the division is exact, and
  rounding is not modelled.
\<close>

type_synonym 'v Series = "'v option list"
type_synonym 'v DataFrame = "(string \<times> 'v Series) list"
type_synonym 'v dataframes = "(string \<times> 'v DataFrame) list"

record 'v ColumnMetadata =
  file_name :: string
  column :: string
  dtype :: string
  sample_values :: "'v list"
  is_id :: bool
  cardinality :: nat

record Relationship =
  source_file :: string
  source_column :: string
  target_file :: string
  target_column :: string
  relationship_type :: string
  confidence :: rat

text \<open>
  \<open>networkx.DiGraph\<close>: a dictionary of nodes with their attributes and a dictionary of
  edges keyed by the ordered node pair, so that there is at most one edge from \<open>u\<close> to
  \<open>v\<close>. Both are kept as association lists in order of first insertion.
\<close>

record node_attrs =
  node_type :: string
  columns :: "string list"
  shape :: "nat \<times> nat"

record edge_attrs =
  e_source_column :: string
  e_target_column :: string
  e_type :: string
  e_confidence :: rat

record DiGraph =
  g_nodes :: "(string \<times> node_attrs option) list"
  g_edges :: "((string \<times> string) \<times> edge_attrs) list"

definition has_node :: "DiGraph \<Rightarrow> string \<Rightarrow> bool" where
  "has_node g n = (n \<in> set (map fst (g_nodes g)))"

definition number_of_edges :: "DiGraph \<Rightarrow> nat" where
  "number_of_edges g = length (g_edges g)"

text \<open>
  \<open>G.add_edge(u, v, **attr)\<close>: \<open>u\<close> and \<open>v\<close> become nodes when they are not yet; the
  edge from \<open>u\<close> to \<open>v\<close> is created when it is absent, and otherwise its attribute
  dictionary is updated with \<open>attr\<close> (here all four keys, so it is replaced).
\<close>

definition ensure_node :: "string \<Rightarrow> (string \<times> node_attrs option) list \<Rightarrow> (string \<times> node_attrs option) list" where
  "ensure_node n ns = (if n \<in> set (map fst ns) then ns else ns @ [(n, None)])"

fun set_edge :: "(string \<times> string) \<Rightarrow> edge_attrs \<Rightarrow> ((string \<times> string) \<times> edge_attrs) list
                   \<Rightarrow> ((string \<times> string) \<times> edge_attrs) list" where
  "set_edge k a [] = [(k, a)]"
| "set_edge k a ((k', a') # es) = (if k' = k then (k, a) # es else (k', a') # set_edge k a es)"

definition add_edge :: "string \<Rightarrow> string \<Rightarrow> edge_attrs \<Rightarrow> DiGraph \<Rightarrow> DiGraph" where
  "add_edge u v a g =
     g\<lparr> g_nodes := ensure_node v (ensure_node u (g_nodes g)),
        g_edges := set_edge (u, v) a (g_edges g) \<rparr>"

record 'v LivingKnowledgeGraph =
  data_dir :: string
  graph :: DiGraph
  metadata :: "(string \<times> (string \<times> 'v ColumnMetadata) list) list"
  relationships :: "Relationship list"

definition init_kg :: "string \<Rightarrow> 'v LivingKnowledgeGraph" where
  "init_kg d = \<lparr> data_dir = d, graph = \<lparr> g_nodes = [], g_edges = [] \<rparr>,
                 metadata = [], relationships = [] \<rparr>"

definition significant_keywords :: "string set" where
  "significant_keywords =
     {''id'', ''key'', ''client'', ''produit'', ''product'', ''customer'', ''transaction''}"

definition is_potential_join_key :: "string \<Rightarrow> string \<Rightarrow> bool" where
  "is_potential_join_key col1 col2 =
     (let parts1 = set (re_split [] (lower col1));
          parts2 = set (re_split [] (lower col2));
          common = parts1 \<inter> parts2
      in common \<inter> significant_keywords \<noteq> {})"

text \<open>\<open>set(series.dropna().unique())\<close>\<close>

definition value_set :: "'v Series \<Rightarrow> 'v set" where
  "value_set s = set (remdups (List.map_filter id s))"

definition calculate_value_overlap :: "'v Series \<Rightarrow> 'v Series \<Rightarrow> rat" where
  "calculate_value_overlap series1 series2 =
     (let set1 = value_set series1; set2 = value_set series2
      in if set1 = {} \<or> set2 = {} then 0
         else (let intersection = card (set1 \<inter> set2); union = card (set1 \<union> set2)
               in if union > 0 then of_nat intersection / of_nat union else 0))"

definition add_edge_to_graph :: "Relationship \<Rightarrow> DiGraph \<Rightarrow> DiGraph" where
  "add_edge_to_graph rel g =
     add_edge (source_file rel) (target_file rel)
       \<lparr> e_source_column = source_column rel, e_target_column = target_column rel,
         e_type = relationship_type rel, e_confidence = confidence rel \<rparr> g"

text \<open>
  The body of the innermost loop of \<open>discover_relationships\<close> decides whether the column
  pair gives a relationship; \<open>visit\<close> is its effect on the object.
\<close>

definition match_columns :: "string \<Rightarrow> string \<times> 'v Series \<Rightarrow> string \<Rightarrow> string \<times> 'v Series
                               \<Rightarrow> Relationship option" where
  "match_columns file1 c1 file2 c2 =
     (let col1 = fst c1; col2 = fst c2 in
      if col1 = col2 then
        Some \<lparr> source_file = file1, source_column = col1, target_file = file2,
               target_column = col2, relationship_type = ''exact_name_match'',
               confidence = 9 / 10 \<rparr>
      else if is_potential_join_key col1 col2 then
        (let overlap = calculate_value_overlap (snd c1) (snd c2) in
         if overlap > 1 / 10 then
           Some \<lparr> source_file = file1, source_column = col1, target_file = file2,
                  target_column = col2, relationship_type = ''join_key'',
                  confidence = min overlap (95 / 100) \<rparr>
         else None)
      else None)"

definition emit :: "Relationship \<Rightarrow> 'v LivingKnowledgeGraph \<Rightarrow> 'v LivingKnowledgeGraph" where
  "emit rel self =
     self\<lparr> relationships := relationships self @ [rel],
           graph := add_edge_to_graph rel (graph self) \<rparr>"

definition visit :: "(string \<times> (string \<times> 'v Series)) \<times> (string \<times> (string \<times> 'v Series))
                       \<Rightarrow> 'v LivingKnowledgeGraph \<Rightarrow> 'v LivingKnowledgeGraph" where
  "visit p self =
     (case match_columns (fst (fst p)) (snd (fst p)) (fst (snd p)) (snd (snd p)) of
        Some rel \<Rightarrow> emit rel self
      | None \<Rightarrow> self)"

text \<open>\<open>for i, file1 in enumerate(files): for file2 in files[i+1:]\<close>\<close>

fun file_pairs :: "'a list \<Rightarrow> ('a \<times> 'a) list" where
  "file_pairs [] = []"
| "file_pairs (x # xs) = map (Pair x) xs @ file_pairs xs"

text \<open>The column pairs in the order in which the four nested loops reach them.\<close>

definition column_pairs :: "'v dataframes
     \<Rightarrow> ((string \<times> (string \<times> 'v Series)) \<times> (string \<times> (string \<times> 'v Series))) list" where
  "column_pairs dfs =
     concat (map (\<lambda>(d1, d2).
        concat (map (\<lambda>c1. map (\<lambda>c2. ((fst d1, c1), (fst d2, c2))) (snd d2)) (snd d1)))
        (file_pairs dfs))"

definition discover_relationships :: "'v dataframes \<Rightarrow> 'v LivingKnowledgeGraph
     \<Rightarrow> Relationship list \<times> 'v LivingKnowledgeGraph" where
  "discover_relationships dfs self =
     (let self1 = self\<lparr> relationships := [] \<rparr>;
          self2 = fold visit (column_pairs dfs) self1
      in (relationships self2, self2))"

text \<open>
  The dictionaries and frames the module receives have unique keys and unique column
  names.
\<close>

definition wf_dataframes :: "'v dataframes \<Rightarrow> bool" where
  "wf_dataframes dfs =
     (distinct (map fst dfs) \<and> list_all (\<lambda>d. distinct (map fst (snd d))) dfs)"

text \<open>
  Vocabulary for the statements about discovery: the four names a relationship joins, the
  same four names of a visited column pair, the outcome of the loop body on a pair, and
  the relationships reported for given names.
\<close>

definition key_of :: "(string \<times> (string \<times> 'v Series)) \<times> (string \<times> (string \<times> 'v Series)) \<Rightarrow> string \<times> string \<times> string \<times> string" where
  "key_of p = (fst (fst p), fst (snd (fst p)), fst (snd p), fst (snd (snd p)))"

definition rel_key :: "Relationship \<Rightarrow> string \<times> string \<times> string \<times> string" where
  "rel_key r = (source_file r, source_column r, target_file r, target_column r)"

definition matched :: "(string \<times> (string \<times> 'v Series)) \<times> (string \<times> (string \<times> 'v Series)) \<Rightarrow> Relationship option" where
  "matched p = match_columns (fst (fst p)) (snd (fst p)) (fst (snd p)) (snd (snd p))"

definition relationships_for :: "string \<Rightarrow> string \<Rightarrow> string \<Rightarrow> string \<Rightarrow> Relationship list \<Rightarrow> Relationship list" where
  "relationships_for f1 c1 f2 c2 rels =
     filter (\<lambda>r. source_file r = f1 \<and> source_column r = c1 \<and>
                  target_file r = f2 \<and> target_column r = c2) rels"

subsection \<open>Join paths\<close>

text \<open>
  \<open>G.to_undirected()\<close> gives every node its neighbours in either direction. The
  undirected graph is the list of the nodes, each with its neighbours.
\<close>

type_synonym Graph = "(string \<times> string list) list"

definition neighbors :: "DiGraph \<Rightarrow> string \<Rightarrow> string list" where
  "neighbors g u =
     remdups (map (snd \<circ> fst) (filter (\<lambda>e. fst (fst e) = u) (g_edges g)) @
              map (fst \<circ> fst) (filter (\<lambda>e. snd (fst e) = u) (g_edges g)))"

definition to_undirected :: "DiGraph \<Rightarrow> Graph" where
  "to_undirected g = map (\<lambda>n. (n, neighbors g n)) (map fst (g_nodes g))"

definition adj :: "Graph \<Rightarrow> string \<Rightarrow> string list" where
  "adj G u = (case map_of G u of Some ns \<Rightarrow> ns | None \<Rightarrow> [])"

text \<open>
  \<open>networkx.shortest_path(G, source, target)\<close> raises \<open>NodeNotFound\<close> when either end
  is not a node of \<open>G\<close>, returns a path with the fewest edges from \<open>source\<close> to
  \<open>target\<close> (the one-node path when they are equal), and raises \<open>NetworkXNoPath\<close>
  when there is none. The search is a breadth-first search: \<open>seen\<close> holds the nodes
  reached so far and the queue holds, for each node still to expand, the path that reached
  it, last node first. networkx searches from both ends, so among several shortest paths
  it may return another one than this search.
\<close>

datatype nx_error = NodeNotFound | NetworkXNoPath

function bfs :: "Graph \<Rightarrow> string \<Rightarrow> string list \<Rightarrow> string list list \<Rightarrow> string list option" where
  "bfs G target seen [] = None"
| "bfs G target seen ([] # queue) = bfs G target seen queue"
| "bfs G target seen ((u # p) # queue) =
     (if u = target then Some (rev (u # p))
      else (let new = filter (\<lambda>v. v \<notin> set seen) (adj G u)
            in bfs G target (seen @ new) (queue @ map (\<lambda>v. v # u # p) new)))"
  by pat_completeness auto
termination
proof (relation "measures [\<lambda>(G, t, seen, q). card (\<Union>(set ` snd ` set G) - set seen),
                            \<lambda>(G, t, seen, q). length q]")
  show "wf (measures [\<lambda>(G, t, seen, q). card (\<Union>(set ` snd ` set G) - set seen),
                      \<lambda>(G, t, seen, q). length q])"
    by simp
next
  fix G :: Graph and target :: string and seen :: "string list" and queue :: "string list list"
  show "((G, target, seen, queue), (G, target, seen, [] # queue))
        \<in> measures [\<lambda>(G, t, seen, q). card (\<Union>(set ` snd ` set G) - set seen),
                     \<lambda>(G, t, seen, q). length q]"
    by simp
next
  fix G :: Graph and target :: string and seen :: "string list" and queue :: "string list list"
    and u :: string and p :: "string list" and new :: "string list"
  assume new: "new = filter (\<lambda>v. v \<notin> set seen) (adj G u)"
  let ?U = "\<Union>(set ` snd ` set G)"
  have sub: "set (adj G u) \<subseteq> ?U"
  proof (cases "map_of G u")
    case None
    then show ?thesis by (simp add: adj_def)
  next
    case (Some ns)
    then have "(u, ns) \<in> set G" by (rule map_of_SomeD)
    then have "set ns \<subseteq> ?U" by force
    then show ?thesis using Some by (simp add: adj_def)
  qed
  show "((G, target, seen @ new, queue @ map (\<lambda>v. v # u # p) new),
         (G, target, seen, (u # p) # queue))
        \<in> measures [\<lambda>(G, t, seen, q). card (\<Union>(set ` snd ` set G) - set seen),
                     \<lambda>(G, t, seen, q). length q]"
  proof (cases "new = []")
    case True
    then show ?thesis by simp
  next
    case False
    then obtain v where v: "v \<in> set new" by (cases new) auto
    have "v \<in> ?U - set seen" and "v \<notin> ?U - set (seen @ new)"
      using v new sub by auto
    then have "?U - set (seen @ new) \<subset> ?U - set seen"
      by auto
    moreover have "finite (?U - set seen)"
      by simp
    ultimately have "card (?U - set (seen @ new)) < card (?U - set seen)"
      by (simp add: psubset_card_mono)
    then show ?thesis by simp
  qed
qed

definition nx_shortest_path :: "Graph \<Rightarrow> string \<Rightarrow> string \<Rightarrow> nx_error + string list" where
  "nx_shortest_path G source target =
     (if source \<notin> set (map fst G) \<or> target \<notin> set (map fst G) then Inl NodeNotFound
      else case bfs G target [source] [[source]] of
             None \<Rightarrow> Inl NetworkXNoPath
           | Some path \<Rightarrow> Inr path)"

text \<open>
  \<open>get_join_path\<close> turns \<open>NetworkXNoPath\<close> into \<open>None\<close>; any other exception leaves
  the method.
\<close>

definition get_join_path :: "'v LivingKnowledgeGraph \<Rightarrow> string \<Rightarrow> string
                               \<Rightarrow> nx_error + string list option" where
  "get_join_path self file1 file2 =
     (case nx_shortest_path (to_undirected (graph self)) file1 file2 of
        Inr path \<Rightarrow> Inr (Some path)
      | Inl NetworkXNoPath \<Rightarrow> Inr None
      | Inl e \<Rightarrow> Inl e)"

text \<open>
  Two datasets are connected in the undirected view of the graph when they are equal or a
  chain of edges, each taken in either direction, leads from one to the other.
\<close>

definition undirected_edges :: "DiGraph \<Rightarrow> (string \<times> string) list" where
  "undirected_edges g = concat (map (\<lambda>e. [(fst (fst e), snd (fst e)), (snd (fst e), fst (fst e))]) (g_edges g))"

definition connected :: "DiGraph \<Rightarrow> string \<Rightarrow> string \<Rightarrow> bool" where
  "connected g a b = (a = b \<or> (a, b) \<in> (set (undirected_edges g))\<^sup>+)"

text \<open>One step of the search: from a node to one of its neighbours.\<close>

definition step_rel :: "Graph \<Rightarrow> (string \<times> string) set" where
  "step_rel G = {(u, v). v \<in> set (adj G u)}"

text \<open>
  A graph of three datasets with one relationship: \<open>logistics\<close> is isolated.
\<close>

definition demo_kg :: "int LivingKnowledgeGraph" where
  "demo_kg = \<lparr> data_dir = ''data'',
     graph = \<lparr> g_nodes = [(''customers'', None), (''orders'', None), (''logistics'', None)],
               g_edges = [((''customers'', ''orders''),
                  \<lparr> e_source_column = ''id'', e_target_column = ''id'',
                    e_type = ''exact_name_match'', e_confidence = 9 / 10 \<rparr>)] \<rparr>,
     metadata = [], relationships = [] \<rparr>"

section \<open>The trust layer (modules/trust\_layer.py)\<close>

datatype ValidationSeverity = CRITICAL | WARNING | INFO

record ValidationIssue =
  severity :: ValidationSeverity
  rule :: string
  message :: string
  suggestion :: "string option"

text \<open>
  The optional language model is the function from the query text and the joined file
  names to the content of its answer, \<open>None\<close> when the call raises.
\<close>

record 'v TrustLayer =
  kg :: "'v LivingKnowledgeGraph"
  llm :: "(string \<Rightarrow> string \<Rightarrow> string option) option"

text \<open>
  The messages are written without their accents. The order in which Python iterates over
  a set of strings is not fixed by the language: the parameter \<open>iter_set\<close> of the rules
  below stands for it, giving the elements of \<open>set(xs)\<close> in iteration order.
\<close>

definition quote :: string where
  "quote = [CHR 0x27]"

subsection \<open>Regular expressions\<close>

text \<open>
  \<open>re.search(r'\bWORD\b', s, re.IGNORECASE)\<close> for a word made of word characters: some
  occurrence of the word, in any case, has no word character next to it on either side.
\<close>

fun search_word_from :: "string \<Rightarrow> bool \<Rightarrow> string \<Rightarrow> bool" where
  "search_word_from w prev_is_word [] = False"
| "search_word_from w prev_is_word (c # cs) =
     ((\<not> prev_is_word \<and> lower (take (length w) (c # cs)) = lower w \<and>
       (case drop (length w) (c # cs) of [] \<Rightarrow> True | d # _ \<Rightarrow> \<not> is_word d))
      \<or> search_word_from w (is_word c) cs)"

definition re_search_word :: "string \<Rightarrow> string \<Rightarrow> bool" where
  "re_search_word w s = search_word_from w False s"

text \<open>
  \<open>re.findall(r'(\w+)\.(\w+)\s*=\s*(\w+)\.(\w+)', s)\<close>. Every repetition of the pattern
  is followed by a character outside its class, so a match at a position takes the longest
  run each time and there is nothing to backtrack over. \<open>findall\<close> tries the positions
  from left to right and continues behind each match.
\<close>

definition word1 :: "string \<Rightarrow> (string \<times> string) option" where
  "word1 s = (if takeWhile is_word s = [] then None
              else Some (takeWhile is_word s, dropWhile is_word s))"

definition lit :: "char \<Rightarrow> string \<Rightarrow> string option" where
  "lit c s = (case s of [] \<Rightarrow> None | d # r \<Rightarrow> if d = c then Some r else None)"

definition spaces :: "string \<Rightarrow> string" where
  "spaces s = dropWhile is_space s"

definition match_join :: "string \<Rightarrow> ((string \<times> string \<times> string \<times> string) \<times> string) option" where
  "match_join s =
     (case word1 s of None \<Rightarrow> None | Some (alias1, r1) \<Rightarrow>
      case lit CHR ''.'' r1 of None \<Rightarrow> None | Some r2 \<Rightarrow>
      case word1 r2 of None \<Rightarrow> None | Some (col1, r3) \<Rightarrow>
      case lit CHR ''='' (spaces r3) of None \<Rightarrow> None | Some r4 \<Rightarrow>
      case word1 (spaces r4) of None \<Rightarrow> None | Some (alias2, r5) \<Rightarrow>
      case lit CHR ''.'' r5 of None \<Rightarrow> None | Some r6 \<Rightarrow>
      case word1 r6 of None \<Rightarrow> None | Some (col2, rest) \<Rightarrow>
        Some ((alias1, col1, alias2, col2), rest))"

text \<open>
  \<open>n\<close> counts the characters of the last match that are still to be passed.
\<close>

fun findall_from :: "nat \<Rightarrow> string \<Rightarrow> (string \<times> string \<times> string \<times> string) list" where
  "findall_from n [] = []"
| "findall_from n (c # cs) =
     (if n > 0 then findall_from (n - 1) cs
      else case match_join (c # cs) of
             None \<Rightarrow> findall_from 0 cs
           | Some (m, rest) \<Rightarrow> m # findall_from (length cs - length rest) cs)"

definition findall_join :: "string \<Rightarrow> (string \<times> string \<times> string \<times> string) list" where
  "findall_join s = findall_from 0 s"

text \<open>\<open>s.strip()\<close> and \<open>s.count(c)\<close>\<close>

definition strip :: "string \<Rightarrow> string" where
  "strip s = rev (dropWhile is_space (rev (dropWhile is_space s)))"

definition count_char :: "char \<Rightarrow> string \<Rightarrow> nat" where
  "count_char c s = length (filter (\<lambda>d. d = c) s)"

subsection \<open>The rules\<close>

text \<open>
  No rule assigns to the object or to the knowledge graph it holds: each is modelled as a
  function from the object to its result and the object after the call.
\<close>

definition file_issue :: "(string list \<Rightarrow> string list) \<Rightarrow> string \<Rightarrow> string list \<Rightarrow> ValidationIssue" where
  "file_issue iter_set file available_files =
     \<lparr> severity = CRITICAL, rule = ''file_existence'',
       message = ''Fichier '' @ quote @ file @ quote @ '' introuvable'',
       suggestion = Some (''Fichiers disponibles: '' @ join '', '' (iter_set available_files)) \<rparr>"

definition validate_file_existence :: "(string list \<Rightarrow> string list) \<Rightarrow> string list
     \<Rightarrow> 'v TrustLayer \<Rightarrow> ValidationIssue list \<times> 'v TrustLayer" where
  "validate_file_existence iter_set required_files self =
     (let available_files = map fst (metadata (kg self)) in
      (concat (map (\<lambda>file. if file \<notin> set available_files
                             then [file_issue iter_set file available_files] else [])
                   required_files),
       self))"

definition column_issue :: "(string list \<Rightarrow> string list) \<Rightarrow> string \<Rightarrow> string \<Rightarrow> string list \<Rightarrow> ValidationIssue" where
  "column_issue iter_set file col available_columns =
     \<lparr> severity = CRITICAL, rule = ''column_existence'',
       message = ''Colonne '' @ quote @ col @ quote @ '' introuvable dans '' @ quote @ file @ quote,
       suggestion = Some (''Colonnes disponibles: '' @ join '', '' (iter_set available_columns)) \<rparr>"

text \<open>\<open>required_columns\<close> is the list of the items of the dictionary, in its order.\<close>

definition validate_column_existence :: "(string list \<Rightarrow> string list) \<Rightarrow> (string \<times> string list) list
     \<Rightarrow> 'v TrustLayer \<Rightarrow> ValidationIssue list \<times> 'v TrustLayer" where
  "validate_column_existence iter_set required_columns self =
     (concat (map (\<lambda>(file, cols).
        case map_of (metadata (kg self)) file of
          None \<Rightarrow> []
        | Some file_metadata \<Rightarrow>
            (let available_columns = map fst file_metadata in
             concat (map (\<lambda>col. if col \<notin> set available_columns
                                  then [column_issue iter_set file col available_columns] else [])
                         cols)))
        required_columns),
      self)"

definition validate_sql_syntax :: "string \<Rightarrow> 'v TrustLayer \<Rightarrow> ValidationIssue list \<times> 'v TrustLayer" where
  "validate_sql_syntax sql_query self =
     ((if \<not> re_search_word ''SELECT'' sql_query
       then [\<lparr> severity = CRITICAL, rule = ''sql_syntax'',
                message = ''Requete SQL invalide: SELECT manquant'', suggestion = None \<rparr>]
       else []) @
      (if \<not> re_search_word ''FROM'' sql_query
       then [\<lparr> severity = CRITICAL, rule = ''sql_syntax'',
                message = ''Requete SQL invalide: FROM manquant'', suggestion = None \<rparr>]
       else []) @
      (if count_char CHR 0x27 sql_query mod 2 \<noteq> 0
       then [\<lparr> severity = WARNING, rule = ''sql_syntax'',
                message = ''Guillemets simples non apparies detectes'', suggestion = None \<rparr>]
       else []),
      self)"

fun resolve_alias_to_file :: "string \<Rightarrow> string list \<Rightarrow> string option" where
  "resolve_alias_to_file alias [] = None"
| "resolve_alias_to_file alias (file # files) =
     (if py_in (lower alias) (lower file) \<or> py_in (lower file) (lower alias) then Some file
      else resolve_alias_to_file alias files)"

definition get_column_type :: "'v TrustLayer \<Rightarrow> string \<Rightarrow> string \<Rightarrow> string option" where
  "get_column_type self file col =
     (case map_of (metadata (kg self)) file of
        None \<Rightarrow> None
      | Some file_metadata \<Rightarrow>
          (case map_of file_metadata col of None \<Rightarrow> None | Some m \<Rightarrow> Some (dtype m)))"

definition numeric_types :: "string set" where
  "numeric_types = {''int64'', ''int32'', ''float64'', ''float32'', ''int'', ''float''}"

definition string_types :: "string set" where
  "string_types = {''object'', ''string'', ''str''}"

definition are_types_compatible :: "string \<Rightarrow> string \<Rightarrow> bool" where
  "are_types_compatible type1 type2 =
     (let t1 = lower type1; t2 = lower type2 in
      if t1 = t2 then True
      else if t1 \<in> numeric_types \<and> t2 \<in> numeric_types then True
      else if t1 \<in> string_types \<and> t2 \<in> string_types then True
      else False)"

definition type_issue :: "string \<Rightarrow> string \<Rightarrow> string \<Rightarrow> string \<Rightarrow> string \<Rightarrow> string \<Rightarrow> ValidationIssue" where
  "type_issue file1 col1 type1 file2 col2 type2 =
     \<lparr> severity = CRITICAL, rule = ''type_compatibility'',
       message = ''Jointure incompatible: '' @ file1 @ ''.'' @ col1 @ '' ('' @ type1 @ '') avec ''
                 @ file2 @ ''.'' @ col2 @ '' ('' @ type2 @ '')'',
       suggestion = Some (''Convertir l'' @ quote @ ''un des types avec CAST()'') \<rparr>"

text \<open>
  The body of the loop over the matches of the join pattern. The tests \<open>file1 and file2\<close>
  and \<open>type1 and type2\<close> are Python's truth values of optional strings: \<open>None\<close> and
  the empty string are false.
\<close>

definition check_join :: "'v TrustLayer \<Rightarrow> string list \<Rightarrow> string \<times> string \<times> string \<times> string
                            \<Rightarrow> ValidationIssue list" where
  "check_join self required_files m =
     (case m of (alias1, col1, alias2, col2) \<Rightarrow>
      case (resolve_alias_to_file alias1 required_files,
            resolve_alias_to_file alias2 required_files) of
        (Some file1, Some file2) \<Rightarrow>
          if file1 \<noteq> [] \<and> file2 \<noteq> [] then
            (let type1 = get_column_type self file1 col1;
                 type2 = get_column_type self file2 col2 in
             case (type1, type2) of
               (Some t1, Some t2) \<Rightarrow>
                 if t1 \<noteq> [] \<and> t2 \<noteq> [] \<and> \<not> are_types_compatible t1 t2
                 then [type_issue file1 col1 t1 file2 col2 t2] else []
             | _ \<Rightarrow> [])
          else []
      | _ \<Rightarrow> [])"

definition validate_join_type_compatibility :: "string \<Rightarrow> string list \<Rightarrow> 'v TrustLayer
     \<Rightarrow> ValidationIssue list \<times> 'v TrustLayer" where
  "validate_join_type_compatibility sql_query required_files self =
     (concat (map (check_join self required_files) (findall_join sql_query)), self)"

definition dangerous_keywords :: "(string \<times> string) list" where
  "dangerous_keywords =
     [(''DROP'', ''DROP detecte - operation destructrice''),
      (''DELETE'', ''DELETE detecte - modification de donnees''),
      (''UPDATE'', ''UPDATE detecte - modification de donnees''),
      (''TRUNCATE'', ''TRUNCATE detecte - operation destructrice''),
      (''INSERT'', ''INSERT detecte - modification de donnees'')]"

definition validate_sql_safety :: "string \<Rightarrow> 'v TrustLayer \<Rightarrow> ValidationIssue list \<times> 'v TrustLayer" where
  "validate_sql_safety sql_query self =
     (concat (map (\<lambda>(pattern, msg).
        if re_search_word pattern sql_query
        then [\<lparr> severity = CRITICAL, rule = ''sql_safety'', message = msg,
                 suggestion = Some ''Seules les requetes en lecture seule (SELECT) sont autorisees'' \<rparr>]
        else []) dangerous_keywords),
      self)"

definition validate_semantic_coherence :: "string \<Rightarrow> string list \<Rightarrow> 'v TrustLayer
     \<Rightarrow> ValidationIssue list \<times> 'v TrustLayer" where
  "validate_semantic_coherence sql_query required_files self =
     (case llm self of
        None \<Rightarrow> ([], self)
      | Some invoke \<Rightarrow>
          (case invoke sql_query (join '', '' required_files) of
             None \<Rightarrow> ([], self)
           | Some content \<Rightarrow>
               (let response_text = strip content in
                if upper response_text \<noteq> ''OK''
                then ([\<lparr> severity = WARNING, rule = ''semantic_coherence'',
                          message = ''Judge Agent: '' @ response_text, suggestion = None \<rparr>], self)
                else ([], self))))"

definition validate_execution_plan :: "(string list \<Rightarrow> string list) \<Rightarrow> string \<Rightarrow> string list
     \<Rightarrow> (string \<times> string list) list \<Rightarrow> 'v TrustLayer
     \<Rightarrow> (bool \<times> ValidationIssue list) \<times> 'v TrustLayer" where
  "validate_execution_plan iter_set sql_query required_files required_columns self =
     (let (issues1, self1) = validate_file_existence iter_set required_files self;
          (issues2, self2) = validate_column_existence iter_set required_columns self1;
          (issues3, self3) = validate_sql_syntax sql_query self2;
          (issues4, self4) = validate_join_type_compatibility sql_query required_files self3;
          (issues5, self5) = validate_sql_safety sql_query self4;
          (issues6, self6) = (case llm self5 of
                                None \<Rightarrow> ([], self5)
                              | Some _ \<Rightarrow> validate_semantic_coherence sql_query required_files self5);
          issues = issues1 @ issues2 @ issues3 @ issues4 @ issues5 @ issues6;
          has_critical = list_ex (\<lambda>issue. severity issue = CRITICAL) issues;
          validation_passed = \<not> has_critical
      in ((validation_passed, issues), self6))"

text \<open>
  A trust layer over two scanned datasets, \<open>sales\<close> with a date column and \<open>customers\<close>
  with an integer identifier, and no language model.
\<close>

definition demo_metadata :: "(string \<times> (string \<times> int ColumnMetadata) list) list" where
  "demo_metadata =
     [(''sales'', [(''Date'', \<lparr> file_name = ''sales'', column = ''Date'',
                              dtype = ''datetime64[ns]'', sample_values = [],
                              is_id = False, cardinality = 3 \<rparr>)]),
      (''customers'', [(''ID'', \<lparr> file_name = ''customers'', column = ''ID'',
                               dtype = ''int64'', sample_values = [],
                               is_id = True, cardinality = 3 \<rparr>),
                       (''Nom'', \<lparr> file_name = ''customers'', column = ''Nom'',
                               dtype = ''object'', sample_values = [],
                               is_id = False, cardinality = 3 \<rparr>)])]"

definition demo_trust_layer :: "int TrustLayer" where
  "demo_trust_layer =
     \<lparr> kg = \<lparr> data_dir = ''data'', graph = \<lparr> g_nodes = [], g_edges = [] \<rparr>,
              metadata = demo_metadata, relationships = [] \<rparr>,
       llm = None \<rparr>"

text \<open>The issues of the optional sixth rule, none when no model is configured.\<close>

definition semantic_issues :: "string \<Rightarrow> string list \<Rightarrow> 'v TrustLayer \<Rightarrow> ValidationIssue list" where
  "semantic_issues sql_query required_files self =
     (case llm self of None \<Rightarrow> []
      | Some _ \<Rightarrow> fst (validate_semantic_coherence sql_query required_files self))"

section \<open>Properties of relationship discovery\<close>

lemma visit_None: "matched p = None \<Longrightarrow> visit p self = self"
  by (simp add: visit_def matched_def)

lemma visit_Some: "matched p = Some r \<Longrightarrow> visit p self = emit r self"
  by (simp add: visit_def matched_def)

lemma relationships_fold_visit:
  "relationships (fold visit ps self) = relationships self @ List.map_filter matched ps"
proof (induction ps arbitrary: self)
  case Nil
  show ?case by (simp add: List.map_filter_simps)
next
  case (Cons p ps)
  show ?case
    by (cases "matched p")
       (simp_all add: Cons.IH visit_None visit_Some emit_def List.map_filter_simps)
qed

lemma graph_fold_visit:
  "graph (fold visit ps self) = fold add_edge_to_graph (List.map_filter matched ps) (graph self)"
proof (induction ps arbitrary: self)
  case Nil
  show ?case by (simp add: List.map_filter_simps)
next
  case (Cons p ps)
  show ?case
    by (cases "matched p")
       (simp_all add: Cons.IH visit_None visit_Some emit_def List.map_filter_simps)
qed

lemma discover_relationships_fst:
  "fst (discover_relationships dfs self) = List.map_filter matched (column_pairs dfs)"
  by (simp add: discover_relationships_def Let_def relationships_fold_visit)

lemma matched_key: "matched p = Some r \<Longrightarrow> rel_key r = key_of p"
  by (auto simp: matched_def match_columns_def rel_key_def key_of_def Let_def split: if_splits)

lemma distinct_map_concat_keyed:
  assumes "distinct (map g xs)"
    and "\<And>x. x \<in> set xs \<Longrightarrow> distinct (map k (f x))"
    and "\<And>x y. x \<in> set xs \<Longrightarrow> y \<in> set (f x) \<Longrightarrow> h (k y) = g x"
  shows "distinct (map k (concat (map f xs)))"
  using assms
proof (induction xs)
  case Nil
  show ?case by simp
next
  case (Cons x xs)
  have d: "distinct (map k (concat (map f xs)))"
    using Cons by simp
  have disj: "k ` set (f x) \<inter> k ` (\<Union>z\<in>set xs. set (f z)) = {}"
  proof (rule ccontr)
    assume "k ` set (f x) \<inter> k ` (\<Union>z\<in>set xs. set (f z)) \<noteq> {}"
    then obtain y z y' where y: "y \<in> set (f x)" and z: "z \<in> set xs" and y': "y' \<in> set (f z)"
      and e: "k y = k y'" by auto
    have "g x = h (k y)" using Cons.prems(3)[of x y] y by simp
    also have "\<dots> = g z" using Cons.prems(3)[of z y'] z y' e by simp
    finally show False using Cons.prems(1) z by auto
  qed
  show ?case using d disj Cons.prems(2)[of x] by auto
qed

lemma set_file_pairs: "(a, b) \<in> set (file_pairs xs) \<Longrightarrow> a \<in> set xs \<and> b \<in> set xs"
  by (induction xs) auto

lemma distinct_file_pairs: "distinct xs \<Longrightarrow> distinct (file_pairs xs)"
proof (induction xs)
  case Nil
  show ?case by simp
next
  case (Cons x xs)
  then show ?case
    by (auto simp: distinct_map inj_on_def dest: set_file_pairs)
qed

lemma file_pairs_map: "file_pairs (map f xs) = map (\<lambda>(a, b). (f a, f b)) (file_pairs xs)"
  by (induction xs) auto

lemma file_pairs_nth: "i < j \<Longrightarrow> j < length xs \<Longrightarrow> (xs ! i, xs ! j) \<in> set (file_pairs xs)"
proof (induction xs arbitrary: i j)
  case Nil
  then show ?case by simp
next
  case (Cons x xs)
  show ?case
  proof (cases i)
    case 0
    then show ?thesis using Cons.prems by (cases j) auto
  next
    case (Suc i')
    then obtain j' where j: "j = Suc j'" using Cons.prems by (cases j) auto
    then show ?thesis using Cons.IH[of i' j'] Cons.prems Suc by auto
  qed
qed

lemma relationships_for_key:
  "relationships_for f1 c1 f2 c2 rels = filter (\<lambda>r. rel_key r = (f1, c1, f2, c2)) rels"
  by (simp add: relationships_for_def rel_key_def)

lemma filter_key_single:
  "distinct (map k ps) \<Longrightarrow> x \<in> set ps \<Longrightarrow> filter (\<lambda>y. k y = k x) ps = [x]"
proof (induction ps)
  case Nil
  then show ?case by simp
next
  case (Cons p ps)
  show ?case
  proof (cases "p = x")
    case True
    have "filter (\<lambda>y. k y = k x) ps = []"
      using Cons.prems(1) True by (auto simp: filter_empty_conv image_iff)
    then show ?thesis using True by simp
  next
    case False
    then have "x \<in> set ps" using Cons.prems(2) by simp
    moreover have "k p \<noteq> k x" using Cons.prems(1) \<open>x \<in> set ps\<close> by auto
    ultimately show ?thesis using Cons by simp
  qed
qed

lemma filter_map_filter_key:
  assumes "\<And>p r. m p = Some r \<Longrightarrow> rk r = k p"
  shows "filter (\<lambda>r. rk r = q) (List.map_filter m ps) = List.map_filter m (filter (\<lambda>p. k p = q) ps)"
proof (induction ps)
  case Nil
  show ?case by (simp add: List.map_filter_simps)
next
  case (Cons p ps)
  show ?case
    using Cons.IH assms[of p]
    by (cases "m p") (auto simp: List.map_filter_simps)
qed

lemma distinct_column_keys:
  assumes "wf_dataframes dfs"
  shows "distinct (map key_of (column_pairs dfs))"
  unfolding column_pairs_def
proof (rule distinct_map_concat_keyed
    [where g = "\<lambda>(d1, d2). (fst d1, fst d2)" and h = "\<lambda>(f1, c1, f2, c2). (f1, f2)"])
  have "map (\<lambda>(d1, d2). (fst d1, fst d2)) (file_pairs dfs) = file_pairs (map fst dfs)"
    by (simp add: file_pairs_map)
  then show "distinct (map (\<lambda>(d1, d2). (fst d1, fst d2)) (file_pairs dfs))"
    using assms by (simp add: wf_dataframes_def distinct_file_pairs)
next
  fix x :: "(string \<times> 'a DataFrame) \<times> (string \<times> 'a DataFrame)"
  assume x: "x \<in> set (file_pairs dfs)"
  obtain d1 d2 where xd: "x = (d1, d2)" by (cases x)
  have d1: "distinct (map fst (snd d1))" and d2: "distinct (map fst (snd d2))"
    using assms x xd set_file_pairs[of d1 d2 dfs]
    by (auto simp: wf_dataframes_def list_all_iff)
  have "distinct (map key_of
          (concat (map (\<lambda>c1. map (\<lambda>c2. ((fst d1, c1), (fst d2, c2))) (snd d2)) (snd d1))))"
  proof (rule distinct_map_concat_keyed
      [where g = fst and h = "\<lambda>(f1, c1, f2, c2). c1"])
    show "distinct (map fst (snd d1))" by (rule d1)
  next
    fix c1 :: "string \<times> 'a Series"
    have e: "map key_of (map (\<lambda>c2. ((fst d1, c1), (fst d2, c2))) (snd d2))
          = map (\<lambda>n. (fst d1, fst c1, fst d2, n)) (map fst (snd d2))"
      by (simp add: key_of_def)
    have "distinct (map (\<lambda>n. (fst d1, fst c1, fst d2, n)) (map fst (snd d2)))"
      using d2 by (simp add: distinct_map inj_on_def)
    then show "distinct (map key_of (map (\<lambda>c2. ((fst d1, c1), (fst d2, c2))) (snd d2)))"
      by (simp only: e)
  next
    fix c1 :: "string \<times> 'a Series" and y
    assume "y \<in> set (map (\<lambda>c2. ((fst d1, c1), (fst d2, c2))) (snd d2))"
    then show "(case key_of y of (f1, c1, f2, c2) \<Rightarrow> c1) = fst c1"
      by (auto simp: key_of_def)
  qed
  then show "distinct (map key_of (case x of (d1, d2) \<Rightarrow>
      concat (map (\<lambda>c1. map (\<lambda>c2. ((fst d1, c1), (fst d2, c2))) (snd d2)) (snd d1))))"
    by (simp add: xd)
next
  fix x y
  assume "x \<in> set (file_pairs dfs)"
    and "y \<in> set (case x of (d1, d2) \<Rightarrow>
      concat (map (\<lambda>c1. map (\<lambda>c2. ((fst d1, c1), (fst d2, c2))) (snd d2)) (snd d1)))"
  then show "(case key_of y of (f1, c1, f2, c2) \<Rightarrow> (f1, f2)) = (case x of (d1, d2) \<Rightarrow> (fst d1, fst d2))"
    by (cases x) (auto simp: key_of_def)
qed

lemma in_concat_map: "x \<in> set xs \<Longrightarrow> y \<in> set (f x) \<Longrightarrow> y \<in> set (concat (map f xs))"
  by auto

lemma column_pairs_member:
  assumes "i < j" "j < length dfs" "c1 \<in> set (snd (dfs ! i))" "c2 \<in> set (snd (dfs ! j))"
  shows "((fst (dfs ! i), c1), (fst (dfs ! j), c2)) \<in> set (column_pairs dfs)"
proof -
  have fp: "(dfs ! i, dfs ! j) \<in> set (file_pairs dfs)"
    using assms(1,2) by (rule file_pairs_nth)
  have inner: "((fst (dfs ! i), c1), (fst (dfs ! j), c2))
      \<in> set (map (\<lambda>c2. ((fst (dfs ! i), c1), (fst (dfs ! j), c2))) (snd (dfs ! j)))"
    using assms(4) by simp
  have "((fst (dfs ! i), c1), (fst (dfs ! j), c2)) \<in> set (concat (map (\<lambda>c1.
      map (\<lambda>c2. ((fst (dfs ! i), c1), (fst (dfs ! j), c2))) (snd (dfs ! j))) (snd (dfs ! i))))"
    using assms(3) inner by (rule in_concat_map)
  then have "((fst (dfs ! i), c1), (fst (dfs ! j), c2)) \<in> set ((\<lambda>(d1, d2). concat (map (\<lambda>c1.
      map (\<lambda>c2. ((fst d1, c1), (fst d2, c2))) (snd d2)) (snd d1))) (dfs ! i, dfs ! j))"
    by simp
  with fp show ?thesis
    unfolding column_pairs_def by (rule in_concat_map)
qed

lemma relationships_for_discovered:
  assumes "wf_dataframes dfs" "i < j" "j < length dfs"
    and "(c1, s1) \<in> set (snd (dfs ! i))" "(c2, s2) \<in> set (snd (dfs ! j))"
  shows "relationships_for (fst (dfs ! i)) c1 (fst (dfs ! j)) c2 (fst (discover_relationships dfs self))
         = (case match_columns (fst (dfs ! i)) (c1, s1) (fst (dfs ! j)) (c2, s2) of
              None \<Rightarrow> [] | Some r \<Rightarrow> [r])"
proof -
  let ?p = "((fst (dfs ! i), (c1, s1)), (fst (dfs ! j), (c2, s2)))"
  have mem: "?p \<in> set (column_pairs dfs)"
    using assms(2-5) by (rule column_pairs_member)
  have key: "key_of ?p = (fst (dfs ! i), c1, fst (dfs ! j), c2)"
    by (simp add: key_of_def)
  have "relationships_for (fst (dfs ! i)) c1 (fst (dfs ! j)) c2 (fst (discover_relationships dfs self))
        = filter (\<lambda>r. rel_key r = key_of ?p) (List.map_filter matched (column_pairs dfs))"
    by (simp add: relationships_for_key discover_relationships_fst key)
  also have "\<dots> = List.map_filter matched (filter (\<lambda>p. key_of p = key_of ?p) (column_pairs dfs))"
    by (rule filter_map_filter_key) (rule matched_key)
  also have "filter (\<lambda>p. key_of p = key_of ?p) (column_pairs dfs) = [?p]"
    using distinct_column_keys[OF assms(1)] mem by (rule filter_key_single)
  finally show ?thesis
    by (simp add: List.map_filter_simps matched_def split: option.splits)
qed

lemma value_set_eq: "value_set s = {v. Some v \<in> set s}"
proof -
  have "\<And>x. Some x \<in> set s \<Longrightarrow> x \<in> the ` {x \<in> set s. \<exists>y. x = Some y}"
    by (rule image_eqI[where x = "Some _"]) auto
  then show ?thesis
    by (auto simp: value_set_def List.map_filter_def)
qed

lemma matched_columns:
  "matched p = Some r \<Longrightarrow>
     source_column r = target_column r \<or> is_potential_join_key (source_column r) (target_column r)"
  by (auto simp: matched_def match_columns_def Let_def split: if_splits)

lemma map_filter_member: "r \<in> set (List.map_filter m ps) \<Longrightarrow> \<exists>p\<in>set ps. m p = Some r"
  by (auto simp: List.map_filter_def)

lemma file_pairs_index:
  "(x, y) \<in> set (file_pairs xs) \<Longrightarrow> \<exists>a b. a < b \<and> b < length xs \<and> xs ! a = x \<and> xs ! b = y"
proof (induction xs)
  case Nil
  then show ?case by simp
next
  case (Cons z zs)
  from Cons.prems consider "x = z \<and> y \<in> set zs" | "(x, y) \<in> set (file_pairs zs)"
    by auto
  then show ?case
  proof cases
    case 1
    then obtain k where "k < length zs" and "zs ! k = y"
      by (auto simp: in_set_conv_nth)
    then have "0 < Suc k \<and> Suc k < length (z # zs) \<and> (z # zs) ! 0 = x \<and> (z # zs) ! Suc k = y"
      using 1 by simp
    then show ?thesis by blast
  next
    case 2
    then obtain a b where "a < b" and "b < length zs" and "zs ! a = x" and "zs ! b = y"
      using Cons.IH by blast
    then have "Suc a < Suc b \<and> Suc b < length (z # zs) \<and> (z # zs) ! Suc a = x
               \<and> (z # zs) ! Suc b = y"
      by simp
    then show ?thesis by blast
  qed
qed

lemma column_pairs_files:
  assumes "p \<in> set (column_pairs dfs)"
  shows "\<exists>a b. a < b \<and> b < length dfs \<and> fst (fst p) = fst (dfs ! a) \<and> fst (snd p) = fst (dfs ! b)"
proof -
  from assms obtain d1 d2 where fp: "(d1, d2) \<in> set (file_pairs dfs)"
    and f: "fst (fst p) = fst d1" "fst (snd p) = fst d2"
    unfolding column_pairs_def by auto
  from file_pairs_index[OF fp] show ?thesis
    using f by auto
qed

lemma no_reverse_relationship:
  assumes "wf_dataframes dfs" and "i < j" and "j < length dfs"
  shows "relationships_for (fst (dfs ! j)) c1 (fst (dfs ! i)) c2
           (fst (discover_relationships dfs self)) = []"
proof -
  have "rel_key r \<noteq> (fst (dfs ! j), c1, fst (dfs ! i), c2)"
    if "r \<in> set (List.map_filter matched (column_pairs dfs))" for r
  proof
    assume k: "rel_key r = (fst (dfs ! j), c1, fst (dfs ! i), c2)"
    from that have "\<exists>p\<in>set (column_pairs dfs). matched p = Some r"
      by (rule map_filter_member)
    then obtain p where p: "p \<in> set (column_pairs dfs)" and m: "matched p = Some r" ..
    from m have "rel_key r = key_of p" by (rule matched_key)
    with k have fj: "fst (fst p) = fst (dfs ! j)" and fi: "fst (snd p) = fst (dfs ! i)"
      by (simp_all add: key_of_def)
    from column_pairs_files[OF p] obtain a b where ab: "a < b" "b < length dfs"
      and fa: "fst (fst p) = fst (dfs ! a)" and fb: "fst (snd p) = fst (dfs ! b)"
      by blast
    have d: "distinct (map fst dfs)"
      using assms(1) by (simp add: wf_dataframes_def)
    have "(map fst dfs ! a = map fst dfs ! j) = (a = j)"
      by (rule nth_eq_iff_index_eq[OF d]) (use ab assms(2,3) in simp_all)
    then have "a = j"
      using fa fj ab assms(2,3) by simp
    moreover have "(map fst dfs ! b = map fst dfs ! i) = (b = i)"
      by (rule nth_eq_iff_index_eq[OF d]) (use ab assms(2,3) in simp_all)
    then have "b = i"
      using fb fi ab assms(2,3) by simp
    ultimately show False
      using ab(1) assms(2) by simp
  qed
  then show ?thesis
    by (simp add: relationships_for_key discover_relationships_fst filter_empty_conv)
qed

lemma overlap_jaccard:
  "calculate_value_overlap s1 s2 =
     of_nat (card ({v. Some v \<in> set s1} \<inter> {v. Some v \<in> set s2}))
       / of_nat (card ({v. Some v \<in> set s1} \<union> {v. Some v \<in> set s2}))"
  by (auto simp: calculate_value_overlap_def Let_def value_set_eq)

lemma overlap_commute: "calculate_value_overlap s1 s2 = calculate_value_overlap s2 s1"
  by (simp add: overlap_jaccard Int_commute Un_commute)

lemma overlap_all_null:
  "(\<forall>x\<in>set s1. x = None) \<or> (\<forall>x\<in>set s2. x = None) \<Longrightarrow> calculate_value_overlap s1 s2 = 0"
  by (auto simp: calculate_value_overlap_def Let_def value_set_eq)

text \<open>
  Claim C3. For two datasets of a well-formed \<open>dataframes\<close> dictionary, the first
  before the second, and a column name \<open>c\<close> that both have, \<open>discover_relationships\<close>
  reports exactly one relationship from the first dataset's \<open>c\<close> to the second's: it
  has kind \<open>exact_name_match\<close> and confidence 0.90, whatever the two columns hold, so
  no \<open>join_key\<close> relationship is reported for that pair; and none is reported in the
  other direction.
\<close>

theorem exact_name_match_emitted:
  assumes "wf_dataframes dfs" and "i < j" and "j < length dfs"
    and "(c, s1) \<in> set (snd (dfs ! i))" and "(c, s2) \<in> set (snd (dfs ! j))"
  shows "relationships_for (fst (dfs ! i)) c (fst (dfs ! j)) c
           (fst (discover_relationships dfs self))
         = [\<lparr> source_file = fst (dfs ! i), source_column = c, target_file = fst (dfs ! j),
              target_column = c, relationship_type = ''exact_name_match'',
              confidence = 9 / 10 \<rparr>]
       \<and> relationships_for (fst (dfs ! j)) c (fst (dfs ! i)) c
           (fst (discover_relationships dfs self)) = []"
  using relationships_for_discovered[OF assms] no_reverse_relationship[OF assms(1-3)]
  by (simp add: match_columns_def)

text \<open>
  The columns \<open>id\<close> of \<open>customers\<close> and \<open>orders\<close> share no value and are still
  matched by name.
\<close>

theorem exact_name_match_emitted_witness:
  "relationships_for ''customers'' ''id'' ''orders'' ''id''
     (fst (discover_relationships
        [(''customers'', [(''id'', [Some (1::int)]), (''name'', [Some 7])]),
         (''orders'', [(''id'', [Some 2]), (''amount'', [Some 8])])] (init_kg ''data'')))
   = [\<lparr> source_file = ''customers'', source_column = ''id'', target_file = ''orders'',
        target_column = ''id'', relationship_type = ''exact_name_match'',
        confidence = 9 / 10 \<rparr>]"
  using exact_name_match_emitted[of
      "[(''customers'', [(''id'', [Some (1::int)]), (''name'', [Some 7])]),
        (''orders'', [(''id'', [Some 2]), (''amount'', [Some 8])])]"
      0 1 "''id''" "[Some 1]" "[Some 2]" "init_kg ''data''"]
  by (simp add: wf_dataframes_def)

text \<open>
  Claim C4. For two columns with different names that \<open>_is_potential_join_key\<close> accepts
  (their lower-cased pieces between underscores and whitespace share a significant
  keyword), \<open>discover_relationships\<close> reports a \<open>join_key\<close> relationship with
  confidence \<open>min(overlap, 0.95)\<close> exactly when the overlap exceeds 0.10, and nothing
  otherwise; the overlap is the Jaccard index of the two sets of non-null values; it is 0,
  and nothing is reported, when either column is empty or all null; it does not depend on
  the order of the two columns; and nothing is reported in the other direction.
\<close>

theorem join_key_rule:
  assumes "wf_dataframes dfs" and "i < j" and "j < length dfs"
    and "(c1, s1) \<in> set (snd (dfs ! i))" and "(c2, s2) \<in> set (snd (dfs ! j))"
    and "c1 \<noteq> c2" and "is_potential_join_key c1 c2"
  shows "relationships_for (fst (dfs ! i)) c1 (fst (dfs ! j)) c2
           (fst (discover_relationships dfs self))
         = (if calculate_value_overlap s1 s2 > 1 / 10
            then [\<lparr> source_file = fst (dfs ! i), source_column = c1,
                     target_file = fst (dfs ! j), target_column = c2,
                     relationship_type = ''join_key'',
                     confidence = min (calculate_value_overlap s1 s2) (95 / 100) \<rparr>]
            else [])
       \<and> calculate_value_overlap s1 s2 =
           of_nat (card ({v. Some v \<in> set s1} \<inter> {v. Some v \<in> set s2}))
             / of_nat (card ({v. Some v \<in> set s1} \<union> {v. Some v \<in> set s2}))
       \<and> ((\<forall>x\<in>set s1. x = None) \<or> (\<forall>x\<in>set s2. x = None) \<longrightarrow>
            calculate_value_overlap s1 s2 = 0 \<and>
            relationships_for (fst (dfs ! i)) c1 (fst (dfs ! j)) c2
              (fst (discover_relationships dfs self)) = [])
       \<and> calculate_value_overlap s1 s2 = calculate_value_overlap s2 s1
       \<and> relationships_for (fst (dfs ! j)) c2 (fst (dfs ! i)) c1
           (fst (discover_relationships dfs self)) = []"
proof -
  have emitted: "relationships_for (fst (dfs ! i)) c1 (fst (dfs ! j)) c2
           (fst (discover_relationships dfs self))
         = (if calculate_value_overlap s1 s2 > 1 / 10
            then [\<lparr> source_file = fst (dfs ! i), source_column = c1,
                     target_file = fst (dfs ! j), target_column = c2,
                     relationship_type = ''join_key'',
                     confidence = min (calculate_value_overlap s1 s2) (95 / 100) \<rparr>]
            else [])"
    using relationships_for_discovered[OF assms(1-5)] assms(6,7)
    by (simp add: match_columns_def Let_def)
  have null: "(\<forall>x\<in>set s1. x = None) \<or> (\<forall>x\<in>set s2. x = None) \<longrightarrow>
            calculate_value_overlap s1 s2 = 0 \<and>
            relationships_for (fst (dfs ! i)) c1 (fst (dfs ! j)) c2
              (fst (discover_relationships dfs self)) = []"
    using emitted overlap_all_null[of s1 s2] by simp
  show ?thesis
    using emitted null overlap_jaccard[of s1 s2] overlap_commute[of s1 s2]
      no_reverse_relationship[OF assms(1-3)]
    by blast
qed

text \<open>
  The customer identifiers 1 to 3 against the order keys 1 to 5: the overlap is 3/5.
\<close>

theorem join_key_rule_witness:
  "relationships_for ''customers'' ''id'' ''orders'' ''customer_id''
     (fst (discover_relationships
        [(''customers'', [(''id'', [Some (1::int), Some 2, Some 3]), (''name'', [Some 7, None, None])]),
         (''orders'', [(''customer_id'', [Some 1, Some 2, Some 3, Some 4, Some 5]),
                       (''amount'', [Some 8, Some 8, Some 8, Some 9, None])])] (init_kg ''data'')))
   = [\<lparr> source_file = ''customers'', source_column = ''id'', target_file = ''orders'',
        target_column = ''customer_id'', relationship_type = ''join_key'',
        confidence = 3 / 5 \<rparr>]"
proof -
  have k: "is_potential_join_key ''id'' ''customer_id''"
    by code_simp
  have o: "calculate_value_overlap [Some (1::int), Some 2, Some 3]
             [Some 1, Some 2, Some 3, Some 4, Some 5] = 3 / 5"
    by code_simp
  show ?thesis
    using join_key_rule[of
      "[(''customers'', [(''id'', [Some (1::int), Some 2, Some 3]), (''name'', [Some 7, None, None])]),
         (''orders'', [(''customer_id'', [Some 1, Some 2, Some 3, Some 4, Some 5]),
                       (''amount'', [Some 8, Some 8, Some 8, Some 9, None])])]"
      0 1 "''id''" "[Some 1, Some 2, Some 3]" "''customer_id''"
      "[Some 1, Some 2, Some 3, Some 4, Some 5]" "init_kg ''data''"] k
    by (simp add: wf_dataframes_def o)
qed

text \<open>
  Claim C5, amended. For two different column names that share no significant keyword,
  no relationship from a column of the first name to a column of the second is ever
  reported, whatever the columns hold.
\<close>

theorem no_relationship_without_keyword:
  assumes "wf_dataframes dfs" and "c1 \<noteq> c2" and "\<not> is_potential_join_key c1 c2"
  shows "filter (\<lambda>r. source_column r = c1 \<and> target_column r = c2)
           (fst (discover_relationships dfs self)) = []"
proof -
  have "\<not> (source_column r = c1 \<and> target_column r = c2)"
    if "r \<in> set (fst (discover_relationships dfs self))" for r
  proof -
    have "r \<in> set (List.map_filter matched (column_pairs dfs))"
      using that by (simp add: discover_relationships_fst)
    then have "\<exists>p\<in>set (column_pairs dfs). matched p = Some r"
      by (rule map_filter_member)
    then obtain p where "p \<in> set (column_pairs dfs)" and "matched p = Some r" ..
    from this(2) have "source_column r = target_column r
        \<or> is_potential_join_key (source_column r) (target_column r)"
      by (rule matched_columns)
    then show ?thesis
      using assms(2,3) by auto
  qed
  then show ?thesis
    by (simp add: filter_empty_conv)
qed

text \<open>
  \<open>name\<close> and \<open>amount\<close> share no keyword, and holding the same value does not
  relate them.
\<close>

theorem no_relationship_without_keyword_witness:
  "filter (\<lambda>r. source_column r = ''name'' \<and> target_column r = ''amount'')
     (fst (discover_relationships
        [(''customers'', [(''id'', [Some (1::int)]), (''name'', [Some 5])]),
         (''orders'', [(''id'', [Some 1]), (''amount'', [Some 5])])] (init_kg ''data''))) = []"
proof -
  have w: "wf_dataframes [(''customers'', [(''id'', [Some (1::int)]), (''name'', [Some 5])]),
         (''orders'', [(''id'', [Some 1]), (''amount'', [Some 5])])]"
    by (simp add: wf_dataframes_def)
  have n: "''name'' \<noteq> ''amount''"
    by simp
  have k: "\<not> is_potential_join_key ''name'' ''amount''"
    by code_simp
  show ?thesis
    by (rule no_relationship_without_keyword[OF w n k])
qed

text \<open>
  Claim C5 as stated fails for identical names: \<open>name\<close> shares no significant keyword
  with itself, and the two columns called \<open>name\<close> are related by the exact-name rule.
\<close>

theorem identical_names_without_keyword_counterexample:
  "wf_dataframes [(''customers'', [(''name'', [Some (1::int)])]),
                  (''orders'', [(''name'', [Some 2])])]
   \<and> \<not> is_potential_join_key ''name'' ''name''
   \<and> fst (discover_relationships
        [(''customers'', [(''name'', [Some (1::int)])]),
         (''orders'', [(''name'', [Some 2])])] (init_kg ''data''))
     = [\<lparr> source_file = ''customers'', source_column = ''name'', target_file = ''orders'',
          target_column = ''name'', relationship_type = ''exact_name_match'',
          confidence = 9 / 10 \<rparr>]"
  by code_simp

text \<open>
  Claim C1. Two datasets that share the two column names \<open>id\<close> and \<open>name\<close> give
  two relationships between the same pair of datasets; the second \<open>add_edge\<close> replaces
  the attributes of the edge the first one made, and the graph ends with one edge, that
  of the \<open>name\<close> columns.
\<close>

theorem parallel_relationships_share_one_edge:
  "length (fst (discover_relationships
      [(''customers'', [(''id'', [Some (1::int)]), (''name'', [Some 7])]),
       (''orders'', [(''id'', [Some 2]), (''name'', [Some 8])])] (init_kg ''data''))) = 2
   \<and> number_of_edges (graph (snd (discover_relationships
      [(''customers'', [(''id'', [Some (1::int)]), (''name'', [Some 7])]),
       (''orders'', [(''id'', [Some 2]), (''name'', [Some 8])])] (init_kg ''data'')))) = 1
   \<and> g_edges (graph (snd (discover_relationships
      [(''customers'', [(''id'', [Some (1::int)]), (''name'', [Some 7])]),
       (''orders'', [(''id'', [Some 2]), (''name'', [Some 8])])] (init_kg ''data''))))
     = [((''customers'', ''orders''),
         \<lparr> e_source_column = ''name'', e_target_column = ''name'',
           e_type = ''exact_name_match'', e_confidence = 9 / 10 \<rparr>)]"
  by code_simp

section \<open>Properties of join paths\<close>

lemma bfs_sound:
  "bfs G t seen q = Some r \<Longrightarrow>
   (\<And>u p. (u # p) \<in> set q \<Longrightarrow> (s, u) \<in> (step_rel G)\<^sup>*) \<Longrightarrow>
   (s, t) \<in> (step_rel G)\<^sup>*"
proof (induction G t seen q rule: bfs.induct)
  case (1 G target seen)
  then show ?case by simp
next
  case (2 G target seen queue)
  then show ?case by simp
next
  case (3 G target seen u p queue)
  show ?case
  proof (cases "u = target")
    case True
    then show ?thesis using "3.prems"(2)[of u p] by simp
  next
    case False
    let ?new = "filter (\<lambda>v. v \<notin> set seen) (adj G u)"
    have r: "bfs G target (seen @ ?new) (queue @ map (\<lambda>v. v # u # p) ?new) = Some r"
      using "3.prems"(1) False by (simp add: Let_def)
    have su: "(s, u) \<in> (step_rel G)\<^sup>*"
      using "3.prems"(2)[of u p] by simp
    have inv: "(s, w) \<in> (step_rel G)\<^sup>*"
      if "(w # p') \<in> set (queue @ map (\<lambda>v. v # u # p) ?new)" for w p'
    proof (cases "(w # p') \<in> set queue")
      case True
      then show ?thesis using "3.prems"(2)[of w p'] by simp
    next
      case False
      then have "w \<in> set (adj G u)" using that by auto
      then have "(u, w) \<in> step_rel G" by (simp add: step_rel_def)
      with su show ?thesis by (rule rtrancl_into_rtrancl)
    qed
    show ?thesis
      using "3.IH"[OF False refl r inv] by simp
  qed
qed

lemma adj_to_undirected:
  "v \<in> set (adj (to_undirected g) u) \<Longrightarrow> (u, v) \<in> set (undirected_edges g)"
proof -
  assume v: "v \<in> set (adj (to_undirected g) u)"
  then obtain ns where m: "map_of (to_undirected g) u = Some ns" and vn: "v \<in> set ns"
    by (cases "map_of (to_undirected g) u") (auto simp: adj_def)
  from m have "(u, ns) \<in> set (to_undirected g)" by (rule map_of_SomeD)
  then have "ns = neighbors g u" by (auto simp: to_undirected_def)
  with vn have "v \<in> set (neighbors g u)" by simp
  then have "\<exists>e\<in>set (g_edges g). fst e = (u, v) \<or> fst e = (v, u)"
    by (auto simp: neighbors_def prod_eq_iff)
  then obtain e where e: "e \<in> set (g_edges g)" and f: "fst e = (u, v) \<or> fst e = (v, u)" ..
  have "(u, v) \<in> set [(fst (fst e), snd (fst e)), (snd (fst e), fst (fst e))]"
    using f by auto
  with e show ?thesis
    unfolding undirected_edges_def by (rule in_concat_map)
qed

lemma step_rel_undirected: "step_rel (to_undirected g) \<subseteq> set (undirected_edges g)"
  by (auto simp: step_rel_def dest: adj_to_undirected)

lemma nodes_to_undirected: "set (map fst (to_undirected g)) = set (map fst (g_nodes g))"
  by (auto simp: to_undirected_def image_iff)

text \<open>
  Claim C6. For a dataset \<open>a\<close> that is a node of the graph, \<open>get_join_path(a, a)\<close>
  returns \<open>[a]\<close>; for two nodes that are not connected in the undirected view,
  \<open>get_join_path\<close> returns \<open>None\<close> and raises nothing.
\<close>

theorem join_path_self_and_disconnected:
  "(has_node (graph self) a \<longrightarrow> get_join_path self a a = Inr (Some [a]))
   \<and> (has_node (graph self) a \<and> has_node (graph self) b \<and> \<not> connected (graph self) a b
        \<longrightarrow> get_join_path self a b = Inr None)"
proof (intro conjI impI)
  assume "has_node (graph self) a"
  then have "a \<in> set (map fst (to_undirected (graph self)))"
    by (simp only: nodes_to_undirected has_node_def)
  then show "get_join_path self a a = Inr (Some [a])"
    by (simp add: get_join_path_def nx_shortest_path_def)
next
  assume h: "has_node (graph self) a \<and> has_node (graph self) b \<and> \<not> connected (graph self) a b"
  let ?G = "to_undirected (graph self)"
  have na: "a \<in> set (map fst ?G)" and nb: "b \<in> set (map fst ?G)"
    using h by (simp_all only: nodes_to_undirected has_node_def)
  have "bfs ?G b [a] [[a]] = None"
  proof (rule ccontr)
    assume "bfs ?G b [a] [[a]] \<noteq> None"
    then obtain r where r: "bfs ?G b [a] [[a]] = Some r" by auto
    have "(a, b) \<in> (step_rel ?G)\<^sup>*"
      by (rule bfs_sound[OF r]) simp
    then have "(a, b) \<in> (set (undirected_edges (graph self)))\<^sup>*"
      using rtrancl_mono[OF step_rel_undirected] by blast
    then have "connected (graph self) a b"
      by (auto simp: connected_def dest: rtranclD)
    with h show False by simp
  qed
  then show "get_join_path self a b = Inr None"
    using na nb by (simp add: get_join_path_def nx_shortest_path_def)
qed

text \<open>
  In the demonstration graph, \<open>customers\<close> reaches itself, and \<open>orders\<close> does not
  reach \<open>logistics\<close>.
\<close>

theorem join_path_self_and_disconnected_witness:
  "get_join_path demo_kg ''customers'' ''customers'' = Inr (Some [''customers''])
   \<and> get_join_path demo_kg ''orders'' ''logistics'' = Inr None"
proof -
  have n: "has_node (graph demo_kg) ''customers''"
    by code_simp
  have d: "has_node (graph demo_kg) ''orders'' \<and> has_node (graph demo_kg) ''logistics''
           \<and> \<not> connected (graph demo_kg) ''orders'' ''logistics''"
    by code_simp
  have a: "get_join_path demo_kg ''customers'' ''customers'' = Inr (Some [''customers''])"
    using join_path_self_and_disconnected[of demo_kg "''customers''" "''customers''"] n
    by blast
  have b: "get_join_path demo_kg ''orders'' ''logistics'' = Inr None"
    using join_path_self_and_disconnected[of demo_kg "''orders''" "''logistics''"] d
    by blast
  show ?thesis using a b by simp
qed

text \<open>
  Claim C10. When either name is not a node of the graph, \<open>get_join_path\<close> raises
  (the \<open>NodeNotFound\<close> of networkx passes through the \<open>except\<close> clause); when
  both are nodes it returns, a path or \<open>None\<close>.
\<close>

theorem join_path_missing_node:
  "(\<not> has_node (graph self) a \<or> \<not> has_node (graph self) b
       \<longrightarrow> get_join_path self a b = Inl NodeNotFound)
   \<and> (has_node (graph self) a \<and> has_node (graph self) b
       \<longrightarrow> (\<exists>r. get_join_path self a b = Inr r))"
proof -
  have n: "set (map fst (to_undirected (graph self))) = set (map fst (g_nodes (graph self)))"
    by (rule nodes_to_undirected)
  show ?thesis
    unfolding get_join_path_def nx_shortest_path_def has_node_def n
    by (auto split: option.splits)
qed

text \<open>
  \<open>ghost\<close> is no node of the demonstration graph: asking for a path to it, or from it
  to itself, raises.
\<close>

theorem join_path_missing_node_witness:
  "get_join_path demo_kg ''customers'' ''ghost'' = Inl NodeNotFound
   \<and> get_join_path demo_kg ''ghost'' ''ghost'' = Inl NodeNotFound"
proof -
  have g: "\<not> has_node (graph demo_kg) ''ghost''"
    by code_simp
  have a: "get_join_path demo_kg ''customers'' ''ghost'' = Inl NodeNotFound"
    using join_path_missing_node[of demo_kg "''customers''" "''ghost''"] g by blast
  have b: "get_join_path demo_kg ''ghost'' ''ghost'' = Inl NodeNotFound"
    using join_path_missing_node[of demo_kg "''ghost''" "''ghost''"] g by blast
  show ?thesis using a b by simp
qed

section \<open>Properties of the trust layer\<close>

lemma snd_validate_file_existence [simp]:
  "snd (validate_file_existence iter_set required_files self) = self"
  by (simp add: validate_file_existence_def Let_def)

lemma snd_validate_column_existence [simp]:
  "snd (validate_column_existence iter_set required_columns self) = self"
  by (simp add: validate_column_existence_def)

lemma snd_validate_sql_syntax [simp]:
  "snd (validate_sql_syntax sql_query self) = self"
  by (simp add: validate_sql_syntax_def)

lemma snd_validate_join_type_compatibility [simp]:
  "snd (validate_join_type_compatibility sql_query required_files self) = self"
  by (simp add: validate_join_type_compatibility_def)

lemma snd_validate_sql_safety [simp]:
  "snd (validate_sql_safety sql_query self) = self"
  by (simp add: validate_sql_safety_def)

lemma snd_validate_semantic_coherence [simp]:
  "snd (validate_semantic_coherence sql_query required_files self) = self"
  by (simp add: validate_semantic_coherence_def Let_def split: option.splits)

lemma validate_execution_plan_unfold:
  "validate_execution_plan iter_set sql rf rc self =
     ((\<not> list_ex (\<lambda>issue. severity issue = CRITICAL)
           (fst (validate_file_existence iter_set rf self) @
            fst (validate_column_existence iter_set rc self) @
            fst (validate_sql_syntax sql self) @
            fst (validate_join_type_compatibility sql rf self) @
            fst (validate_sql_safety sql self) @
            semantic_issues sql rf self),
       fst (validate_file_existence iter_set rf self) @
       fst (validate_column_existence iter_set rc self) @
       fst (validate_sql_syntax sql self) @
       fst (validate_join_type_compatibility sql rf self) @
       fst (validate_sql_safety sql self) @
       semantic_issues sql rf self),
      self)"
proof -
  obtain i1 s1 where r1: "validate_file_existence iter_set rf self = (i1, s1)" by fastforce
  have s1: "s1 = self" using snd_validate_file_existence[of iter_set rf self] r1 by simp
  obtain i2 s2 where r2: "validate_column_existence iter_set rc self = (i2, s2)" by fastforce
  have s2: "s2 = self" using snd_validate_column_existence[of iter_set rc self] r2 by simp
  obtain i3 s3 where r3: "validate_sql_syntax sql self = (i3, s3)" by fastforce
  have s3: "s3 = self" using snd_validate_sql_syntax[of sql self] r3 by simp
  obtain i4 s4 where r4: "validate_join_type_compatibility sql rf self = (i4, s4)" by fastforce
  have s4: "s4 = self" using snd_validate_join_type_compatibility[of sql rf self] r4 by simp
  obtain i5 s5 where r5: "validate_sql_safety sql self = (i5, s5)" by fastforce
  have s5: "s5 = self" using snd_validate_sql_safety[of sql self] r5 by simp
  obtain i6 s6 where r6: "validate_semantic_coherence sql rf self = (i6, s6)" by fastforce
  have s6: "s6 = self" using snd_validate_semantic_coherence[of sql rf self] r6 by simp
  show ?thesis
    unfolding validate_execution_plan_def semantic_issues_def
    by (simp add: r1 s1 r2 s2 r3 s3 r4 s4 r5 s5 r6 s6 Let_def split: option.splits)
qed

text \<open>
  Claim C7. The issues \<open>validate_execution_plan\<close> returns are those of every rule, one
  rule after the other in the fixed order file existence, column existence, SQL syntax,
  join type compatibility, SQL safety and, when a model is configured, semantic
  coherence, whatever the earlier rules found; \<open>passed\<close> holds exactly when none of the
  returned issues is critical; and within a rule the issues follow the order of its input:
  the required files, the items of the required columns, the matches of the join pattern.
\<close>

theorem validate_execution_plan_all_rules_in_order:
  "snd (fst (validate_execution_plan iter_set sql rf rc self)) =
     fst (validate_file_existence iter_set rf self) @
     fst (validate_column_existence iter_set rc self) @
     fst (validate_sql_syntax sql self) @
     fst (validate_join_type_compatibility sql rf self) @
     fst (validate_sql_safety sql self) @
     (case llm self of None \<Rightarrow> []
      | Some _ \<Rightarrow> fst (validate_semantic_coherence sql rf self))
   \<and> (fst (fst (validate_execution_plan iter_set sql rf rc self)) \<longleftrightarrow>
        (\<forall>issue\<in>set (snd (fst (validate_execution_plan iter_set sql rf rc self))).
           severity issue \<noteq> CRITICAL))
   \<and> fst (validate_file_existence iter_set (rf @ rf') self) =
       fst (validate_file_existence iter_set rf self) @
       fst (validate_file_existence iter_set rf' self)
   \<and> fst (validate_column_existence iter_set (rc @ rc') self) =
       fst (validate_column_existence iter_set rc self) @
       fst (validate_column_existence iter_set rc' self)
   \<and> fst (validate_join_type_compatibility sql rf self) =
       concat (map (check_join self rf) (findall_join sql))"
proof (intro conjI)
  show "snd (fst (validate_execution_plan iter_set sql rf rc self)) =
     fst (validate_file_existence iter_set rf self) @
     fst (validate_column_existence iter_set rc self) @
     fst (validate_sql_syntax sql self) @
     fst (validate_join_type_compatibility sql rf self) @
     fst (validate_sql_safety sql self) @
     (case llm self of None \<Rightarrow> []
      | Some _ \<Rightarrow> fst (validate_semantic_coherence sql rf self))"
    by (simp add: validate_execution_plan_unfold semantic_issues_def)
  show "fst (fst (validate_execution_plan iter_set sql rf rc self)) \<longleftrightarrow>
        (\<forall>issue\<in>set (snd (fst (validate_execution_plan iter_set sql rf rc self))).
           severity issue \<noteq> CRITICAL)"
    by (simp only: validate_execution_plan_unfold fst_conv snd_conv list_ex_iff) blast
  show "fst (validate_file_existence iter_set (rf @ rf') self) =
       fst (validate_file_existence iter_set rf self) @
       fst (validate_file_existence iter_set rf' self)"
    by (simp add: validate_file_existence_def Let_def)
  show "fst (validate_column_existence iter_set (rc @ rc') self) =
       fst (validate_column_existence iter_set rc self) @
       fst (validate_column_existence iter_set rc' self)"
    by (simp add: validate_column_existence_def)
  show "fst (validate_join_type_compatibility sql rf self) =
       concat (map (check_join self rf) (findall_join sql))"
    by (simp add: validate_join_type_compatibility_def)
qed

text \<open>
  \<open>DROP TABLE x\<close> with an unknown required file: the missing file, the two syntax
  issues and the unsafe keyword are all reported, in that order, and the plan does not
  pass.
\<close>

theorem validate_execution_plan_all_rules_in_order_witness:
  "validate_execution_plan remdups ''DROP TABLE x'' [''nope''] [] demo_trust_layer =
     ((False,
       [file_issue remdups ''nope'' [''sales'', ''customers''],
        \<lparr> severity = CRITICAL, rule = ''sql_syntax'',
          message = ''Requete SQL invalide: SELECT manquant'', suggestion = None \<rparr>,
        \<lparr> severity = CRITICAL, rule = ''sql_syntax'',
          message = ''Requete SQL invalide: FROM manquant'', suggestion = None \<rparr>,
        \<lparr> severity = CRITICAL, rule = ''sql_safety'',
          message = ''DROP detecte - operation destructrice'',
          suggestion = Some ''Seules les requetes en lecture seule (SELECT) sont autorisees'' \<rparr>]),
      demo_trust_layer)"
proof -
  have 1: "fst (validate_file_existence remdups [''nope''] demo_trust_layer)
           = [file_issue remdups ''nope'' [''sales'', ''customers'']]"
    by (simp add: validate_file_existence_def demo_trust_layer_def demo_metadata_def)
  have 2: "fst (validate_column_existence remdups [] demo_trust_layer) = []"
    by (simp add: validate_column_existence_def)
  have 3: "fst (validate_sql_syntax ''DROP TABLE x'' demo_trust_layer)
           = [\<lparr> severity = CRITICAL, rule = ''sql_syntax'',
                 message = ''Requete SQL invalide: SELECT manquant'', suggestion = None \<rparr>,
              \<lparr> severity = CRITICAL, rule = ''sql_syntax'',
                 message = ''Requete SQL invalide: FROM manquant'', suggestion = None \<rparr>]"
    by code_simp
  have 4: "fst (validate_join_type_compatibility ''DROP TABLE x'' [''nope''] demo_trust_layer) = []"
    by code_simp
  have 5: "fst (validate_sql_safety ''DROP TABLE x'' demo_trust_layer)
           = [\<lparr> severity = CRITICAL, rule = ''sql_safety'',
                 message = ''DROP detecte - operation destructrice'',
                 suggestion = Some ''Seules les requetes en lecture seule (SELECT) sont autorisees'' \<rparr>]"
    by code_simp
  have 6: "llm demo_trust_layer = None"
    by (simp add: demo_trust_layer_def)
  let ?r = "validate_execution_plan remdups ''DROP TABLE x'' [''nope''] [] demo_trust_layer"
  note t = validate_execution_plan_all_rules_in_order
    [of remdups "''DROP TABLE x''" "[''nope'']" "[]" demo_trust_layer "[]" "[]"]
  have issues: "snd (fst ?r) = [file_issue remdups ''nope'' [''sales'', ''customers''],
        \<lparr> severity = CRITICAL, rule = ''sql_syntax'',
          message = ''Requete SQL invalide: SELECT manquant'', suggestion = None \<rparr>,
        \<lparr> severity = CRITICAL, rule = ''sql_syntax'',
          message = ''Requete SQL invalide: FROM manquant'', suggestion = None \<rparr>,
        \<lparr> severity = CRITICAL, rule = ''sql_safety'',
          message = ''DROP detecte - operation destructrice'',
          suggestion = Some ''Seules les requetes en lecture seule (SELECT) sont autorisees'' \<rparr>]"
    using conjunct1[OF t] by (simp add: 1 2 3 4 5 6)
  have passed: "fst (fst ?r) = False"
    using conjunct1[OF conjunct2[OF t]] by (simp add: issues file_issue_def)
  have "snd ?r = demo_trust_layer"
    by (simp add: validate_execution_plan_unfold)
  with issues passed show ?thesis
    by (simp add: prod_eq_iff)
qed

text \<open>
  Claim C9. \<open>validate_execution_plan\<close> leaves the trust layer and its knowledge graph
  as they were: the metadata, the relationship list and the graph are unchanged, and the
  pair of \<open>passed\<close> and the issues is all the call produces.
\<close>

theorem validate_execution_plan_frame:
  "snd (validate_execution_plan iter_set sql rf rc self) = self
   \<and> kg (snd (validate_execution_plan iter_set sql rf rc self)) = kg self
   \<and> metadata (kg (snd (validate_execution_plan iter_set sql rf rc self))) = metadata (kg self)
   \<and> relationships (kg (snd (validate_execution_plan iter_set sql rf rc self)))
       = relationships (kg self)
   \<and> graph (kg (snd (validate_execution_plan iter_set sql rf rc self))) = graph (kg self)"
  by (simp add: validate_execution_plan_unfold)

text \<open>
  Claim C8. An item of \<open>required_columns\<close> whose dataset is not in the metadata adds no
  issue to the column rule (the same name in \<open>required_files\<close> does fail the file rule),
  and every issue of the column rule names a required column that is missing from a
  dataset present in the metadata.
\<close>

theorem column_existence_only_for_known_datasets:
  "(file \<notin> set (map fst (metadata (kg self))) \<longrightarrow>
      fst (validate_column_existence iter_set (before @ (file, cols) # after) self)
        = fst (validate_column_existence iter_set (before @ after) self)
      \<and> fst (validate_file_existence iter_set [file] self)
        = [file_issue iter_set file (map fst (metadata (kg self)))])
   \<and> (\<forall>issue\<in>set (fst (validate_column_existence iter_set required_columns self)).
        \<exists>f cs file_metadata c.
          (f, cs) \<in> set required_columns \<and> map_of (metadata (kg self)) f = Some file_metadata
          \<and> c \<in> set cs \<and> c \<notin> set (map fst file_metadata)
          \<and> issue = column_issue iter_set f c (map fst file_metadata))"
proof (intro conjI impI ballI)
  assume "file \<notin> set (map fst (metadata (kg self)))"
  then have "map_of (metadata (kg self)) file = None"
    by (simp add: map_of_eq_None_iff)
  then show "fst (validate_column_existence iter_set (before @ (file, cols) # after) self)
        = fst (validate_column_existence iter_set (before @ after) self)"
    by (simp add: validate_column_existence_def)
next
  assume "file \<notin> set (map fst (metadata (kg self)))"
  then show "fst (validate_file_existence iter_set [file] self)
        = [file_issue iter_set file (map fst (metadata (kg self)))]"
    by (simp add: validate_file_existence_def Let_def)
next
  fix issue
  assume "issue \<in> set (fst (validate_column_existence iter_set required_columns self))"
  then obtain f cs where fc: "(f, cs) \<in> set required_columns"
    and i: "issue \<in> set (case map_of (metadata (kg self)) f of
          None \<Rightarrow> []
        | Some file_metadata \<Rightarrow>
            (let available_columns = map fst file_metadata in
             concat (map (\<lambda>col. if col \<notin> set available_columns
                                  then [column_issue iter_set f col available_columns] else [])
                         cs)))"
    by (auto simp: validate_column_existence_def)
  from i obtain file_metadata where m: "map_of (metadata (kg self)) f = Some file_metadata"
    by (cases "map_of (metadata (kg self)) f") auto
  from i m obtain c where "c \<in> set cs" and "c \<notin> set (map fst file_metadata)"
    and "issue = column_issue iter_set f c (map fst file_metadata)"
    by (auto simp: Let_def split: if_splits)
  with fc m show "\<exists>f cs file_metadata c.
          (f, cs) \<in> set required_columns \<and> map_of (metadata (kg self)) f = Some file_metadata
          \<and> c \<in> set cs \<and> c \<notin> set (map fst file_metadata)
          \<and> issue = column_issue iter_set f c (map fst file_metadata)"
    by blast
qed

text \<open>
  \<open>ghost\<close> is not a scanned dataset and \<open>customers\<close> has no column \<open>ghost_col\<close>:
  the column rule reports the missing column only.
\<close>

theorem column_existence_only_for_known_datasets_witness:
  "fst (validate_column_existence remdups
          [(''ghost'', [''x'']), (''customers'', [''ID'', ''ghost_col''])] demo_trust_layer)
     = [column_issue remdups ''customers'' ''ghost_col'' [''ID'', ''Nom'']]
   \<and> fst (validate_file_existence remdups [''ghost''] demo_trust_layer)
     = [file_issue remdups ''ghost'' [''sales'', ''customers'']]"
proof -
  have g: "''ghost'' \<notin> set (map fst (metadata (kg demo_trust_layer)))"
    by (simp add: demo_trust_layer_def demo_metadata_def)
  have k: "map fst (metadata (kg demo_trust_layer)) = [''sales'', ''customers'']"
    by (simp add: demo_trust_layer_def demo_metadata_def)
  have c: "fst (validate_column_existence remdups
              [(''customers'', [''ID'', ''ghost_col''])] demo_trust_layer)
           = [column_issue remdups ''customers'' ''ghost_col'' [''ID'', ''Nom'']]"
    by (simp add: validate_column_existence_def demo_trust_layer_def demo_metadata_def)
  note t = column_existence_only_for_known_datasets
    [of "''ghost''" demo_trust_layer remdups "[]" "[''x'']"
        "[(''customers'', [''ID'', ''ghost_col''])]" "[]"]
  show ?thesis
    using mp[OF conjunct1[OF t] g] by (simp add: c k)
qed

lemma lower_Nil_iff: "lower t = [] \<longleftrightarrow> t = []"
  by (simp add: lower_def)

text \<open>
  Claim C2, amended. For a match of the join pattern whose two aliases resolve to
  non-empty file names: no issue when the two declared types are the same string; exactly
  one critical issue when one type is numeric-like and the other text-like; exactly one
  critical issue as well when the two types differ after lower-casing and one of them is
  in neither bucket; and no issue when a column has no declared type in the metadata, or
  an empty one.
\<close>

theorem join_type_rule:
  assumes "resolve_alias_to_file alias1 required_files = Some file1" and "file1 \<noteq> []"
    and "resolve_alias_to_file alias2 required_files = Some file2" and "file2 \<noteq> []"
  shows "(get_column_type self file1 col1 = Some t \<and> get_column_type self file2 col2 = Some t
            \<longrightarrow> check_join self required_files (alias1, col1, alias2, col2) = [])
       \<and> (get_column_type self file1 col1 = Some t1 \<and> get_column_type self file2 col2 = Some t2
          \<and> (lower t1 \<in> numeric_types \<and> lower t2 \<in> string_types
              \<or> lower t1 \<in> string_types \<and> lower t2 \<in> numeric_types)
            \<longrightarrow> check_join self required_files (alias1, col1, alias2, col2)
                  = [type_issue file1 col1 t1 file2 col2 t2]
                \<and> severity (type_issue file1 col1 t1 file2 col2 t2) = CRITICAL)
       \<and> (get_column_type self file1 col1 = Some t1 \<and> get_column_type self file2 col2 = Some t2
          \<and> t1 \<noteq> [] \<and> t2 \<noteq> [] \<and> lower t1 \<noteq> lower t2
          \<and> (lower t1 \<notin> numeric_types \<union> string_types \<or> lower t2 \<notin> numeric_types \<union> string_types)
            \<longrightarrow> check_join self required_files (alias1, col1, alias2, col2)
                  = [type_issue file1 col1 t1 file2 col2 t2])
       \<and> (get_column_type self file1 col1 \<in> {None, Some []}
          \<or> get_column_type self file2 col2 \<in> {None, Some []}
            \<longrightarrow> check_join self required_files (alias1, col1, alias2, col2) = [])"
proof (intro conjI impI)
  assume "get_column_type self file1 col1 = Some t \<and> get_column_type self file2 col2 = Some t"
  then show "check_join self required_files (alias1, col1, alias2, col2) = []"
    using assms by (simp add: check_join_def are_types_compatible_def)
next
  assume h: "get_column_type self file1 col1 = Some t1 \<and> get_column_type self file2 col2 = Some t2
          \<and> (lower t1 \<in> numeric_types \<and> lower t2 \<in> string_types
              \<or> lower t1 \<in> string_types \<and> lower t2 \<in> numeric_types)"
  have ne: "t1 \<noteq> [] \<and> t2 \<noteq> []"
    using h lower_Nil_iff[of t1] lower_Nil_iff[of t2]
    by (auto simp: numeric_types_def string_types_def)
  have nc: "\<not> are_types_compatible t1 t2"
    using h by (auto simp: are_types_compatible_def numeric_types_def string_types_def)
  show "check_join self required_files (alias1, col1, alias2, col2)
          = [type_issue file1 col1 t1 file2 col2 t2]"
    using assms h ne nc by (simp add: check_join_def)
  show "severity (type_issue file1 col1 t1 file2 col2 t2) = CRITICAL"
    by (simp add: type_issue_def)
next
  assume h: "get_column_type self file1 col1 = Some t1 \<and> get_column_type self file2 col2 = Some t2
          \<and> t1 \<noteq> [] \<and> t2 \<noteq> [] \<and> lower t1 \<noteq> lower t2
          \<and> (lower t1 \<notin> numeric_types \<union> string_types \<or> lower t2 \<notin> numeric_types \<union> string_types)"
  then have nc: "\<not> are_types_compatible t1 t2"
    by (auto simp: are_types_compatible_def)
  show "check_join self required_files (alias1, col1, alias2, col2)
          = [type_issue file1 col1 t1 file2 col2 t2]"
    using assms h nc by (simp add: check_join_def)
next
  assume "get_column_type self file1 col1 \<in> {None, Some []}
          \<or> get_column_type self file2 col2 \<in> {None, Some []}"
  then show "check_join self required_files (alias1, col1, alias2, col2) = []"
    using assms by (auto simp: check_join_def split: option.splits)
qed

text \<open>
  An integer identifier joined with a text column of \<open>customers\<close>.
\<close>

theorem join_type_rule_witness:
  "check_join demo_trust_layer [''sales'', ''customers''] (''cust'', ''ID'', ''customers'', ''Nom'')
     = [type_issue ''customers'' ''ID'' ''int64'' ''customers'' ''Nom'' ''object'']"
proof -
  have r1: "resolve_alias_to_file ''cust'' [''sales'', ''customers''] = Some ''customers''"
    by code_simp
  have r2: "resolve_alias_to_file ''customers'' [''sales'', ''customers''] = Some ''customers''"
    by code_simp
  have n: "''customers'' \<noteq> []"
    by simp
  have h: "get_column_type demo_trust_layer ''customers'' ''ID'' = Some ''int64''
           \<and> get_column_type demo_trust_layer ''customers'' ''Nom'' = Some ''object''
           \<and> (lower ''int64'' \<in> numeric_types \<and> lower ''object'' \<in> string_types
               \<or> lower ''int64'' \<in> string_types \<and> lower ''object'' \<in> numeric_types)"
    by code_simp
  note t = join_type_rule[OF r1 n r2 n, of demo_trust_layer "''ID''" "''int64''" "''Nom''"
      "''int64''" "''object''"]
  show ?thesis
    using mp[OF conjunct1[OF conjunct2[OF t]] h] by simp
qed

text \<open>
  Claim C2 as stated fails for a type outside both buckets: \<open>datetime64[ns]\<close> is neither
  numeric-like nor text-like, and joining the date column with an integer column is
  reported as a critical issue, not skipped.
\<close>

theorem unknown_type_flagged_counterexample:
  "resolve_alias_to_file ''sales'' [''sales'', ''customers''] = Some ''sales''
   \<and> resolve_alias_to_file ''customers'' [''sales'', ''customers''] = Some ''customers''
   \<and> get_column_type demo_trust_layer ''sales'' ''Date'' = Some ''datetime64[ns]''
   \<and> get_column_type demo_trust_layer ''customers'' ''ID'' = Some ''int64''
   \<and> lower ''datetime64[ns]'' \<notin> numeric_types \<union> string_types
   \<and> fst (validate_join_type_compatibility
        ''SELECT * FROM sales JOIN customers ON sales.Date = customers.ID''
        [''sales'', ''customers''] demo_trust_layer)
     = [type_issue ''sales'' ''Date'' ''datetime64[ns]'' ''customers'' ''ID'' ''int64'']
   \<and> severity (type_issue ''sales'' ''Date'' ''datetime64[ns]'' ''customers'' ''ID'' ''int64'')
     = CRITICAL"
  by code_simp

end
